theory Spec2Isabelle
  imports Main "HOL-Library.Word" "HOL-Library.Sublist" "HOL-Library.State_Monad"
begin

unbundle bit_operations_syntax

section \<open>ECMAScript number operations used by \<open>BingMapsProvider.quadKey\<close>\<close>

text \<open>
  The tile address \<open>(zoom, x, y)\<close> is a triple of JavaScript numbers holding integers;
  they are modelled as \<open>int\<close>.  The bitwise operators of the language do not work on
  these integers directly: \<open>a << b\<close> and \<open>a & b\<close> first convert their operands to
  32-bit integers (the abstract operations ToInt32 and ToUint32, reduction modulo
  \<open>2 ^ 32\<close>), the shift count is the low five bits of the right operand, and the result
  is read back as a signed 32-bit number.
\<close>

type_synonym int32 = "32 word"
type_synonym uint32 = "32 word"

definition ToInt32 :: "int \<Rightarrow> int32" where
  "ToInt32 n = word_of_int n"

definition ToUint32 :: "int \<Rightarrow> uint32" where
  "ToUint32 n = word_of_int n"

text \<open>\<open>a << b\<close>\<close>

definition js_shl :: "int \<Rightarrow> int \<Rightarrow> int" where
  "js_shl a b = sint (push_bit (unat (ToUint32 b AND 0x1F)) (ToInt32 a))"

text \<open>\<open>a & b\<close>\<close>

definition js_and :: "int \<Rightarrow> int \<Rightarrow> int" where
  "js_and a b = sint (ToInt32 a AND ToInt32 b)"

text \<open>
  \<open>quad += cell\<close> appends the decimal representation of the number \<open>cell\<close> to the
  string \<open>quad\<close>.
\<close>

definition digit_char :: "nat \<Rightarrow> char" where
  "digit_char d =
     (if d = 0 then CHR ''0'' else if d = 1 then CHR ''1'' else if d = 2 then CHR ''2''
      else if d = 3 then CHR ''3'' else if d = 4 then CHR ''4'' else if d = 5 then CHR ''5''
      else if d = 6 then CHR ''6'' else if d = 7 then CHR ''7'' else if d = 8 then CHR ''8''
      else CHR ''9'')"

fun Number_toString :: "nat \<Rightarrow> string" where
  "Number_toString n =
     (if n < 10 then [digit_char n]
      else Number_toString (n div 10) @ [digit_char (n mod 10)])"

declare Number_toString.simps [simp del]

section \<open>\<open>BingMapsProvider.quadKey\<close>\<close>

text \<open>
  One iteration of the body of the \<open>for\<close> loop, at loop index \<open>i\<close>: the value of
  \<open>cell\<close> when it is appended, and the string \<open>quad\<close> after the iteration.
\<close>

definition quadKey_cell :: "int \<Rightarrow> int \<Rightarrow> int \<Rightarrow> nat" where
  "quadKey_cell i x y =
     (let mask = js_shl 1 (i - 1);
          cell = 0;
          cell = (if js_and x mask \<noteq> 0 then cell + 1 else cell);
          cell = (if js_and y mask \<noteq> 0 then cell + 2 else cell)
      in cell)"

definition quadKey_body :: "int \<Rightarrow> int \<Rightarrow> int \<Rightarrow> string \<Rightarrow> string" where
  "quadKey_body i x y quad = quad @ Number_toString (quadKey_cell i x y)"

text \<open>The loop \<open>for (let i = zoom; i > 0; i--)\<close>, from index \<open>i\<close> on.\<close>

function quadKey_loop :: "int \<Rightarrow> int \<Rightarrow> int \<Rightarrow> string \<Rightarrow> string" where
  "quadKey_loop i x y quad =
     (if i > 0 then quadKey_loop (i - 1) x y (quadKey_body i x y quad) else quad)"
  by pat_completeness auto
termination
  by (relation "measure (\<lambda>(i, x, y, quad). nat i)") auto

declare quadKey_loop.simps [simp del]

definition quadKey :: "int \<Rightarrow> int \<Rightarrow> int \<Rightarrow> string" where
  "quadKey zoom x y = quadKey_loop zoom x y ''''"

text \<open>
  The same loop as a relation between configurations, for the claims about what a call
  does beyond its result.  A configuration holds the loop index \<open>i\<close>, the local string
  \<open>quad\<close> and, as \<open>g\<close>, everything that exists outside the call (the heap and the
  globals of the page).  The body of \<open>quadKey\<close> mentions only its parameters and its
  locals \<open>i\<close>, \<open>mask\<close>, \<open>cell\<close> and \<open>quad\<close>, so no rule inspects or changes \<open>g\<close>.
  A call relates the state before it to the state after it and the returned string.
\<close>

inductive quadKey_exec :: "int \<Rightarrow> int \<Rightarrow> 'g \<times> int \<times> string \<Rightarrow> 'g \<times> string \<Rightarrow> bool"
  for x y :: int where
    exit_loop: "\<not> i > 0 \<Longrightarrow> quadKey_exec x y (g, i, quad) (g, quad)"
  | iterate: "i > 0 \<Longrightarrow> quadKey_exec x y (g, i - 1, quadKey_body i x y quad) r
      \<Longrightarrow> quadKey_exec x y (g, i, quad) r"

definition quadKey_call :: "int \<Rightarrow> int \<Rightarrow> int \<Rightarrow> 'g \<Rightarrow> 'g \<times> string \<Rightarrow> bool" where
  "quadKey_call zoom x y g r = quadKey_exec x y (g, zoom, []) r"

section \<open>The provider object\<close>

text \<open>
  The fields the class \<open>BingMapsProvider\<close> declares, with the values their
  initialisers give them.  The base class \<open>MapProvider\<close> is not among the sources; none
  of its fields is read by the code modelled here.
\<close>

record BingMapsProvider =
  maxZoom :: int
  apiKey :: string
  type :: string
  format :: string
  mapSize :: int
  subdomain :: string

definition AERIAL :: string where "AERIAL = ''a''"
definition ROAD :: string where "ROAD = ''r''"
definition AERIAL_LABELS :: string where "AERIAL_LABELS = ''h''"
definition OBLIQUE :: string where "OBLIQUE = ''o''"
definition OBLIQUE_LABELS :: string where "OBLIQUE_LABELS = ''b''"

text \<open>
  The constructor.  An argument is \<open>None\<close> when it is \<open>undefined\<close> (also when the
  caller left it out).  The field initialisers run after \<open>super()\<close>, the two
  assignments of the body after them.
\<close>

definition constructor :: "string option \<Rightarrow> string option \<Rightarrow> BingMapsProvider" where
  "constructor apiKey' type' =
     \<lparr>maxZoom = 19,
      apiKey = (case apiKey' of Some k \<Rightarrow> k | None \<Rightarrow> []),
      type = (case type' of Some t \<Rightarrow> t | None \<Rightarrow> AERIAL),
      format = ''jpeg'',
      mapSize = 512,
      subdomain = ''t1''\<rparr>"

section \<open>\<open>fetchTile\<close>\<close>

text \<open>The image element the executor creates, with the two properties it assigns.\<close>

record HTMLImageElement =
  crossOrigin :: string
  src :: string

text \<open>The string assigned to \<open>image.src\<close>.\<close>

definition fetchTile_src :: "BingMapsProvider \<Rightarrow> int \<Rightarrow> int \<Rightarrow> int \<Rightarrow> string" where
  "fetchTile_src self zoom x y =
     ''http://ecn.'' @ subdomain self @ ''.tiles.virtualearth.net/tiles/'' @ type self
       @ quadKey zoom x y @ ''.jpeg?g=1173''"

definition fetchTile_image :: "BingMapsProvider \<Rightarrow> int \<Rightarrow> int \<Rightarrow> int \<Rightarrow> HTMLImageElement" where
  "fetchTile_image self zoom x y =
     \<lparr>crossOrigin = ''Anonymous'', src = fetchTile_src self zoom x y\<rparr>"

text \<open>
  The URL shape as the specification words it,
  \<open>{scheme}://{subdomain}.{hostSuffix}/tiles/{type}{quadkey}.{format}?{query}\<close>,
  to compare \<open>fetchTile_src\<close> with.
\<close>

definition spec_tile_url ::
    "string \<Rightarrow> string \<Rightarrow> string \<Rightarrow> string \<Rightarrow> string \<Rightarrow> string \<Rightarrow> string \<Rightarrow> string" where
  "spec_tile_url scheme subdomain' hostSuffix type' quadkey format' query =
     scheme @ ''://'' @ subdomain' @ ''.'' @ hostSuffix @ ''/tiles/'' @ type' @ quadkey
       @ ''.'' @ format' @ ''?'' @ query"

subsection \<open>The cancelable handle\<close>

text \<open>
  Modelled from the spec: the states of the class \<open>CancelablePromise\<close>, which
  \<open>fetchTile\<close> imports from \<open>../utils/CancelablePromise\<close> and which is not among the
  sources.  The specification gives a handle the states pending, resolved (with the
  image), rejected (with the error) and canceled.
\<close>

datatype ('v, 'e) settlement = Pending | Resolved 'v | Rejected 'e | Canceled

text \<open>
  Modelled from the spec: a handle of \<open>CancelablePromise\<close> (not among the sources).
  Besides its state it records every invocation of the success and of the failure
  continuation, in order, with the value the continuation received.
\<close>

record ('v, 'e) CancelablePromise =
  state :: "('v, 'e) settlement"
  success_calls :: "'v list"
  failure_calls :: "'e list"

text \<open>
  Modelled from the spec: the handle \<open>new CancelablePromise(executor)\<close> returns (the
  class is not among the sources): pending, created on fetch start, no continuation
  invoked yet.
\<close>

definition new_CancelablePromise :: "('v, 'e) CancelablePromise" where
  "new_CancelablePromise =
     \<lparr>state = Pending, success_calls = [], failure_calls = []\<rparr>"

text \<open>
  Modelled from the spec: the function \<open>resolve\<close> that \<open>CancelablePromise\<close> (not among
  the sources) passes to the executor.  A pending handle settles with the value and the
  success continuation receives it; a handle is settled exactly once, so on any other
  handle nothing happens.
\<close>

definition resolve :: "'v \<Rightarrow> ('v, 'e) CancelablePromise \<Rightarrow> ('v, 'e) CancelablePromise" where
  "resolve v h =
     (if state h = Pending
      then h\<lparr>state := Resolved v, success_calls := success_calls h @ [v]\<rparr>
      else h)"

text \<open>
  Modelled from the spec: the function \<open>reject\<close> that \<open>CancelablePromise\<close> (not among
  the sources) passes to the executor.  A pending handle settles as failed and the
  failure continuation receives the reason; on any other handle nothing happens.
\<close>

definition reject :: "'e \<Rightarrow> ('v, 'e) CancelablePromise \<Rightarrow> ('v, 'e) CancelablePromise" where
  "reject e h =
     (if state h = Pending
      then h\<lparr>state := Rejected e, failure_calls := failure_calls h @ [e]\<rparr>
      else h)"

text \<open>
  Modelled from the spec: the method \<open>cancel\<close> of \<open>CancelablePromise\<close> (not among the
  sources).  Cancellation is a transition from pending to canceled only, and it invokes
  no continuation.  It is a method of the handle and works on the handle alone: what a
  cancellation does to the image load is decided by what \<open>fetchTile\<close> gives the handle,
  see \<open>transport_step\<close> below.
\<close>

definition cancel :: "('v, 'e) CancelablePromise \<Rightarrow> ('v, 'e) CancelablePromise" where
  "cancel h = (if state h = Pending then h\<lparr>state := Canceled\<rparr> else h)"

subsection \<open>The executor of \<open>fetchTile\<close>\<close>

text \<open>
  The reason of a rejection is \<open>None\<close> when \<open>reject\<close> is called without an argument
  (the reason is \<open>undefined\<close>: no error detail).
\<close>

type_synonym reason = "string option"

type_synonym tile_promise = "(HTMLImageElement, reason) CancelablePromise"

text \<open>\<open>image.onload = function() { resolve(image); }\<close>\<close>

definition image_onload :: "HTMLImageElement \<Rightarrow> tile_promise \<Rightarrow> tile_promise" where
  "image_onload img h = resolve img h"

text \<open>\<open>image.onerror = function() { reject(); }\<close>\<close>

definition image_onerror :: "tile_promise \<Rightarrow> tile_promise" where
  "image_onerror h = reject None h"

text \<open>
  The transport of a fetch is the load of the image, which the assignment to
  \<open>image.src\<close> starts: in flight, completed (the image element has reported a load or
  an error), or aborted before it completed.
\<close>

datatype transport_state = InFlight | Completed | Aborted

text \<open>
  A call of \<open>fetchTile\<close> runs the executor, which creates the image, installs the two
  handlers and starts the load by assigning \<open>src\<close>, and returns the new handle.  The
  image is a local variable of the executor; the executor returns nothing and passes
  the image to nobody but, once it has loaded, \<open>resolve\<close>.
\<close>

record fetch =
  fetch_image :: HTMLImageElement
  fetch_transport :: transport_state
  fetch_handle :: tile_promise

definition fetchTile :: "BingMapsProvider \<Rightarrow> int \<Rightarrow> int \<Rightarrow> int \<Rightarrow> fetch" where
  "fetchTile self zoom x y =
     \<lparr>fetch_image = fetchTile_image self zoom x y,
      fetch_transport = InFlight,
      fetch_handle = new_CancelablePromise\<rparr>"

text \<open>
  Modelled from the spec: what happens to a fetch after \<open>fetchTile\<close> has returned (the
  image element and the callers are not among the sources).  The transport completes
  with a decodable image, which the image element reports by its load handler; the
  transport fails, or the payload is not a decodable image, which it reports by its error
  handler; or the caller cancels the handle.
\<close>

datatype fetch_event = TransportCompleted | TransportFailed | DecodeFailed | CallerCancel

text \<open>
  Modelled from the spec: which code an event runs (the image element and the callers
  are not among the sources).  A completed transport runs the handler the executor
  installed as \<open>image.onload\<close>, a failed transport and a failed decoding run the one
  installed as \<open>image.onerror\<close>, and the caller's cancellation runs \<open>cancel\<close> on the
  handle.
\<close>

definition fetch_step :: "HTMLImageElement \<Rightarrow> tile_promise \<Rightarrow> fetch_event \<Rightarrow> tile_promise" where
  "fetch_step img h ev =
     (case ev of
        TransportCompleted \<Rightarrow> image_onload img h
      | TransportFailed \<Rightarrow> image_onerror h
      | DecodeFailed \<Rightarrow> image_onerror h
      | CallerCancel \<Rightarrow> cancel h)"

text \<open>The handle of a fetch after a sequence of events, the earliest first.\<close>

definition fetch_run :: "fetch \<Rightarrow> fetch_event list \<Rightarrow> tile_promise" where
  "fetch_run f evs = foldl (fetch_step (fetch_image f)) (fetch_handle f) evs"

text \<open>
  What an event does to the transport.  A completion, a failure and a failed decoding
  end a load that is in flight.  The caller's cancellation is a call of \<open>cancel\<close> on the
  handle, and the handle cannot reach the load: in \<open>fetchTile\<close> the image is local to
  the executor, no abort action is registered with the handle, and neither handler
  stops the load.  So a cancellation leaves the transport as it is.
\<close>

definition transport_step :: "transport_state \<Rightarrow> fetch_event \<Rightarrow> transport_state" where
  "transport_step t ev =
     (case ev of
        TransportCompleted \<Rightarrow> (if t = InFlight then Completed else t)
      | TransportFailed \<Rightarrow> (if t = InFlight then Completed else t)
      | DecodeFailed \<Rightarrow> (if t = InFlight then Completed else t)
      | CallerCancel \<Rightarrow> t)"

text \<open>The transport of a fetch after a sequence of events, the earliest first.\<close>

definition transport_run :: "fetch \<Rightarrow> fetch_event list \<Rightarrow> transport_state" where
  "transport_run f evs = foldl transport_step (fetch_transport f) evs"

section \<open>\<open>MapHeightNodeShader.prototype.loadHeightGeometry\<close>\<close>

text \<open>
  The method is a computation on the state of the program, of which the node it is
  called on is a part.  Its body is empty: it returns \<open>undefined\<close>, the one value of
  \<open>unit\<close>.
\<close>

definition loadHeightGeometry :: "('s, unit) state" where
  "loadHeightGeometry = State_Monad.return ()"

section \<open>The bits a quadkey is made of\<close>

lemma shift_count: "unat (ToUint32 k AND 0x1F) = nat (k mod 32)"
proof -
  have m: "(0x1F :: 32 word) = mask 5"
    by (simp add: mask_eq_exp_minus_1)
  have "unat (ToUint32 k AND 0x1F) = unat (take_bit 5 (word_of_int k :: 32 word))"
    by (simp only: ToUint32_def m take_bit_eq_mask)
  also have "\<dots> = nat (take_bit 5 k)"
    by (simp add: unsigned_take_bit_eq unsigned_of_int take_bit_nat_eq nat_take_bit_eq)
  also have "\<dots> = nat (k mod 32)"
    by (simp add: take_bit_eq_mod)
  finally show ?thesis .
qed

lemma js_shl_1: "js_shl 1 k = sint ((2 :: 32 word) ^ nat (k mod 32))"
  by (simp add: js_shl_def shift_count ToInt32_def push_bit_eq_mult)

lemma js_and_mask: "js_and x (js_shl 1 k) \<noteq> 0 \<longleftrightarrow> bit x (nat (k mod 32))"
proof -
  have less: "nat (k mod 32) < 32"
    by simp
  have "js_and x (js_shl 1 k) = sint (word_of_int x AND (2 :: 32 word) ^ nat (k mod 32))"
    by (simp add: js_and_def js_shl_1 ToInt32_def)
  then have "js_and x (js_shl 1 k) \<noteq> 0 \<longleftrightarrow> bit (word_of_int x :: 32 word) (nat (k mod 32))"
    by (simp add: signed_eq_0_iff and_exp_eq_0_iff_not_bit)
  also have "\<dots> \<longleftrightarrow> bit x (nat (k mod 32))"
    using less by (simp add: bit_word_of_int_iff)
  finally show ?thesis .
qed

lemma quadKey_cell_bits:
  "quadKey_cell i x y =
     of_bool (bit x (nat ((i - 1) mod 32))) + 2 * of_bool (bit y (nat ((i - 1) mod 32)))"
  by (simp add: quadKey_cell_def Let_def js_and_mask)

lemma quadKey_cell_le: "quadKey_cell i x y \<le> 3"
  by (simp add: quadKey_cell_bits)

lemma toString_cell: "Number_toString (quadKey_cell i x y) = [digit_char (quadKey_cell i x y)]"
  using quadKey_cell_le [of i x y] by (subst Number_toString.simps) simp

lemma quadKey_loop_map:
  "quadKey_loop (int n) x y quad =
     quad @ map (\<lambda>k. digit_char (quadKey_cell (int k) x y)) (rev [1..<Suc n])"
proof (induction n arbitrary: quad)
  case 0
  show ?case by (subst quadKey_loop.simps) simp
next
  case (Suc n)
  have step: "quadKey_loop (int (Suc n)) x y quad =
          quadKey_loop (int n) x y (quad @ [digit_char (quadKey_cell (int (Suc n)) x y)])"
    by (subst quadKey_loop.simps) (simp add: quadKey_body_def toString_cell)
  have idx: "rev [1..<Suc (Suc n)] = Suc n # rev [1..<Suc n]"
    by simp
  show ?case
    unfolding step Suc.IH idx by simp
qed

lemma quadKey_loop_nonpos: "i \<le> 0 \<Longrightarrow> quadKey_loop i x y quad = quad"
  by (subst quadKey_loop.simps) simp

lemma quadKey_map:
  "quadKey z x y = map (\<lambda>k. digit_char (quadKey_cell (int k) x y)) (rev [1..<Suc (nat z)])"
proof (cases "0 \<le> z")
  case True
  then have "quadKey z x y = quadKey_loop (int (nat z)) x y ''''"
    by (simp add: quadKey_def)
  then show ?thesis
    by (simp only: quadKey_loop_map append_Nil)
next
  case False
  then show ?thesis
    by (simp add: quadKey_def quadKey_loop_nonpos)
qed

lemma length_quadKey: "length (quadKey z x y) = nat z"
  by (simp add: quadKey_map)

lemma nth_quadKey:
  assumes "j < nat z"
  shows "quadKey z x y ! j = digit_char (quadKey_cell (z - int j) x y)"
proof -
  have idx: "rev [1..<Suc (nat z)] ! j = nat z - j"
    using assms by (simp add: rev_nth del: upt_Suc)
  have eq: "int (nat z - j) = z - int j"
    using assms by simp
  have "quadKey z x y ! j = digit_char (quadKey_cell (int (rev [1..<Suc (nat z)] ! j)) x y)"
    unfolding quadKey_map using assms by (simp del: upt_Suc)
  then show ?thesis
    by (simp only: idx eq)
qed

lemma nth_quadKey_bits:
  assumes "z \<le> 32" and "j < nat z"
  shows "quadKey z x y ! j =
     digit_char (of_bool (bit x (nat z - Suc j)) + 2 * of_bool (bit y (nat z - Suc j)))"
proof -
  have "0 \<le> z - int j - 1" and "z - int j - 1 < 32"
    using assms by simp_all
  then have "(z - int j - 1) mod 32 = z - int j - 1"
    by simp
  moreover have "nat (z - int j - 1) = nat z - Suc j"
    using assms by simp
  ultimately show ?thesis
    using assms by (simp add: nth_quadKey quadKey_cell_bits)
qed

lemma set_quadKey: "set (quadKey z x y) \<subseteq> {CHR ''0'', CHR ''1'', CHR ''2'', CHR ''3''}"
  by (auto simp add: quadKey_map quadKey_cell_bits digit_char_def)

section \<open>The digits of a quadkey\<close>

lemma quadKey_3_5_2: "quadKey 3 5 2 = ''121''"
  by code_simp

lemma quadKey_33_1_0: "quadKey 33 1 0 = ''100000000000000000000000000000001''"
  by code_simp

lemma quadKey_cell_0: "quadKey_cell i 0 0 = 0"
  by (simp add: quadKey_cell_bits)

text \<open>
  Claim C1, as the code has it.  For a zoom level \<open>z\<close> with \<open>0 \<le> z \<le> 32\<close> and
  integers \<open>x\<close>, \<open>y\<close> with \<open>0 \<le> x, y < 2 ^ z\<close>, \<open>quadKey z x y\<close> is a string of
  exactly \<open>z\<close> characters, each one of \<open>0\<close>, \<open>1\<close>, \<open>2\<close>, \<open>3\<close>, and its \<open>i\<close>-th
  character, counting from 1 at the most significant end, is the digit
  (bit \<open>z - i\<close> of \<open>x\<close>) + 2 * (bit \<open>z - i\<close> of \<open>y\<close>).  The bound \<open>z \<le> 32\<close> is needed:
  the shift \<open>1 << i - 1\<close> uses only the low five bits of its count.
\<close>

theorem quadKey_digits:
  assumes "0 \<le> z" and "z \<le> 32"
    and "0 \<le> x" and "x < 2 ^ nat z" and "0 \<le> y" and "y < 2 ^ nat z"
  shows "length (quadKey z x y) = nat z
    \<and> set (quadKey z x y) \<subseteq> {CHR ''0'', CHR ''1'', CHR ''2'', CHR ''3''}
    \<and> (\<forall>i. 1 \<le> i \<and> i \<le> nat z \<longrightarrow>
          quadKey z x y ! (i - 1) =
            digit_char (of_bool (bit x (nat z - i)) + 2 * of_bool (bit y (nat z - i))))"
proof (intro conjI allI impI)
  show "length (quadKey z x y) = nat z"
    by (rule length_quadKey)
  show "set (quadKey z x y) \<subseteq> {CHR ''0'', CHR ''1'', CHR ''2'', CHR ''3''}"
    by (rule set_quadKey)
next
  fix i :: nat
  assume i: "1 \<le> i \<and> i \<le> nat z"
  then have "i - 1 < nat z" and "Suc (i - 1) = i"
    by auto
  with nth_quadKey_bits [OF \<open>z \<le> 32\<close>, of "i - 1" x y]
  show "quadKey z x y ! (i - 1) =
      digit_char (of_bool (bit x (nat z - i)) + 2 * of_bool (bit y (nat z - i)))"
    by simp
qed

text \<open>
  The theorem for claim C1 at zoom 3, \<open>x = 5\<close> (binary 101), \<open>y = 2\<close> (binary 010):
  the quadkey is \<open>121\<close>.
\<close>

theorem quadKey_digits_witness:
  "(0::int) \<le> 3 \<and> (3::int) \<le> 32 \<and> (0::int) \<le> 5 \<and> (5::int) < 2 ^ nat 3
    \<and> (0::int) \<le> 2 \<and> (2::int) < 2 ^ nat 3
    \<and> length (quadKey 3 5 2) = 3
    \<and> quadKey 3 5 2 ! 0 = CHR ''1'' \<and> quadKey 3 5 2 ! 1 = CHR ''2''
    \<and> quadKey 3 5 2 ! 2 = CHR ''1''"
proof -
  have "length (quadKey 3 5 2) = nat 3
    \<and> (\<forall>i. 1 \<le> i \<and> i \<le> nat 3 \<longrightarrow>
          quadKey 3 5 2 ! (i - 1) =
            digit_char (of_bool (bit (5::int) (nat 3 - i)) + 2 * of_bool (bit (2::int) (nat 3 - i))))"
    using quadKey_digits [of 3 5 2] by simp
  then have len: "length (quadKey 3 5 2) = 3"
    and nth: "\<And>i. 1 \<le> i \<Longrightarrow> i \<le> 3 \<Longrightarrow> quadKey 3 5 2 ! (i - 1) =
            digit_char (of_bool (bit (5::int) (3 - i)) + 2 * of_bool (bit (2::int) (3 - i)))"
    by simp_all
  from nth [of 1] nth [of 2] nth [of 3] len show ?thesis
    by (simp add: digit_char_def)
qed

text \<open>
  Claim C1 as it is stated, for every \<open>z \<ge> 0\<close>, fails at zoom 33 with \<open>x = 1\<close>,
  \<open>y = 0\<close>: the first character would be the digit of bit 32, which is \<open>0\<close>, but the
  mask of the first iteration is \<open>1 << 32 = 1\<close> and the character is \<open>1\<close>.
\<close>

theorem quadKey_digits_counterexample:
  "(0::int) \<le> 33 \<and> (0::int) \<le> 1 \<and> (1::int) < 2 ^ nat 33 \<and> (0::int) \<le> 0 \<and> (0::int) < 2 ^ nat 33
    \<and> (1::nat) \<le> 1 \<and> 1 \<le> nat 33
    \<and> quadKey 33 1 0 ! (1 - 1) \<noteq>
        digit_char (of_bool (bit (1::int) (nat 33 - 1)) + 2 * of_bool (bit (0::int) (nat 33 - 1)))"
  by (simp add: quadKey_33_1_0 digit_char_def bit_1_iff)

text \<open>
  Claim C5.  \<open>quadKey 0 x y\<close> is the empty string for all \<open>x\<close> and \<open>y\<close>;
  \<open>quadKey z 0 0\<close> is the character \<open>0\<close> repeated \<open>z\<close> times, for every \<open>z \<ge> 0\<close> (and
  empty for a negative \<open>z\<close>); \<open>quadKey 1 1 0\<close> is \<open>1\<close>, \<open>quadKey 1 0 1\<close> is \<open>2\<close> and
  \<open>quadKey 1 1 1\<close> is \<open>3\<close>.
\<close>

theorem quadKey_examples:
  "quadKey 0 x y = []
    \<and> quadKey z 0 0 = replicate (nat z) CHR ''0''
    \<and> quadKey 1 1 0 = ''1'' \<and> quadKey 1 0 1 = ''2'' \<and> quadKey 1 1 1 = ''3''"
proof (intro conjI)
  show "quadKey 0 x y = []"
    by (simp add: quadKey_def quadKey_loop_nonpos)
  show "quadKey z 0 0 = replicate (nat z) CHR ''0''"
    by (simp add: quadKey_map quadKey_cell_0 digit_char_def map_replicate_const del: upt_Suc)
  show "quadKey 1 1 0 = ''1''" by code_simp
  show "quadKey 1 0 1 = ''2''" by code_simp
  show "quadKey 1 1 1 = ''3''" by code_simp
qed

section \<open>Coordinates outside the grid, and distinct tiles\<close>

lemma quadKey_cell_mod:
  assumes "1 \<le> k" and "k \<le> nat z" and "z \<le> 32"
  shows "quadKey_cell (int k) (x mod 2 ^ nat z) (y mod 2 ^ nat z) = quadKey_cell (int k) x y"
proof -
  have "0 \<le> int k - 1" and "int k - 1 < 32"
    using assms by simp_all
  then have m: "(int k - 1) mod 32 = int k - 1"
    by simp
  have less: "nat (int k - 1) < nat z"
    using assms by linarith
  have "bit (u mod 2 ^ nat z) (nat (int k - 1)) = bit u (nat (int k - 1))" for u :: int
    using less by (simp add: bit_take_bit_iff flip: take_bit_eq_mod)
  then show ?thesis
    by (simp add: quadKey_cell_bits m)
qed

lemma quadKey_mod:
  assumes "z \<le> 32"
  shows "quadKey z (x mod 2 ^ nat z) (y mod 2 ^ nat z) = quadKey z x y"
  unfolding quadKey_map
  by (rule map_cong [OF refl]) (use assms in \<open>simp add: quadKey_cell_mod del: upt_Suc\<close>)

lemma quadKey_3_13_m1: "quadKey 3 13 (- 1) = ''323''"
  by code_simp

lemma digit_char_inj:
  "digit_char (of_bool a + 2 * of_bool b) = digit_char (of_bool c + 2 * of_bool d)
     \<longleftrightarrow> a = c \<and> b = d"
  by (cases a; cases b; cases c; cases d) (simp_all add: digit_char_def)

lemma quadKey_eq_bits:
  assumes "z \<le> 32" and "quadKey z x1 y1 = quadKey z x2 y2" and "k < nat z"
  shows "bit x1 k = bit x2 k" and "bit y1 k = bit y2 k"
proof -
  define j where "j = nat z - Suc k"
  have j: "j < nat z" and k: "nat z - Suc j = k"
    using assms(3) by (simp_all add: j_def)
  have "quadKey z x1 y1 ! j = quadKey z x2 y2 ! j"
    by (simp add: assms(2))
  then have "bit x1 k = bit x2 k \<and> bit y1 k = bit y2 k"
    by (simp add: nth_quadKey_bits [OF assms(1) j] k digit_char_inj)
  then show "bit x1 k = bit x2 k" and "bit y1 k = bit y2 k"
    by simp_all
qed

lemma int_eq_of_low_bits:
  fixes a b :: int
  assumes "0 \<le> a" and "a < 2 ^ n" and "0 \<le> b" and "b < 2 ^ n"
    and "\<And>k. k < n \<Longrightarrow> bit a k = bit b k"
  shows "a = b"
proof -
  have "take_bit n a = take_bit n b"
    by (rule bit_eqI) (auto simp add: bit_take_bit_iff assms(5))
  moreover have "take_bit n a = a" and "take_bit n b = b"
    using assms by (simp_all add: take_bit_int_eq_self)
  ultimately show ?thesis
    by simp
qed

lemma quadKey_33_zero: "quadKey 33 0 0 = quadKey 33 4294967296 0"
  by code_simp

lemma quadKey_2_3_1: "quadKey 2 3 1 = ''13''"
  by code_simp

lemma quadKey_2_1_3: "quadKey 2 1 3 = ''23''"
  by code_simp

text \<open>
  Claim C9.  For a zoom \<open>z\<close> with \<open>0 \<le> z \<le> 31\<close> and integers \<open>x\<close>, \<open>y\<close> in 32-bit
  range (signed or unsigned: from \<open>- 2 ^ 31\<close> up to, not including, \<open>2 ^ 32\<close>),
  \<open>quadKey z x y\<close> is \<open>quadKey z (x mod 2 ^ z) (y mod 2 ^ z)\<close>: only the low \<open>z\<close> bits
  of the coordinates are used.  The function has no failing branch, so coordinates
  outside the grid are masked, never rejected.
\<close>

theorem quadKey_low_bits:
  assumes "0 \<le> z" and "z \<le> 31"
    and "- (2 ^ 31) \<le> x" and "x < 2 ^ 32" and "- (2 ^ 31) \<le> y" and "y < 2 ^ 32"
  shows "quadKey z x y = quadKey z (x mod 2 ^ nat z) (y mod 2 ^ nat z)"
  using assms by (simp add: quadKey_mod)

text \<open>
  The theorem for claim C9 at zoom 3 with \<open>x = 13\<close> and \<open>y = - 1\<close>, both outside the
  grid: the quadkey is that of \<open>x = 5\<close>, \<open>y = 7\<close>.
\<close>

theorem quadKey_low_bits_witness:
  "(0::int) \<le> 3 \<and> (3::int) \<le> 31 \<and> - (2 ^ 31) \<le> (13::int) \<and> (13::int) < 2 ^ 32
    \<and> - (2 ^ 31) \<le> (- 1::int) \<and> (- 1::int) < 2 ^ 32
    \<and> quadKey 3 13 (- 1) = quadKey 3 5 7 \<and> quadKey 3 13 (- 1) = ''323''"
  using quadKey_low_bits [of 3 13 "- 1"] by (simp add: quadKey_3_13_m1)

text \<open>
  Claim C10, as the code has it.  For a zoom \<open>z\<close> with \<open>0 \<le> z \<le> 32\<close> and two pairs of
  coordinates in \<open>[0, 2 ^ z)\<close>, equal quadkeys come from equal pairs.
\<close>

theorem quadKey_injective:
  assumes "0 \<le> z" and "z \<le> 32"
    and "0 \<le> x1" and "x1 < 2 ^ nat z" and "0 \<le> y1" and "y1 < 2 ^ nat z"
    and "0 \<le> x2" and "x2 < 2 ^ nat z" and "0 \<le> y2" and "y2 < 2 ^ nat z"
    and "quadKey z x1 y1 = quadKey z x2 y2"
  shows "x1 = x2 \<and> y1 = y2"
proof
  show "x1 = x2"
    using assms(3,4,7,8) quadKey_eq_bits(1) [OF assms(2) assms(11)]
    by (rule int_eq_of_low_bits)
  show "y1 = y2"
    using assms(5,6,9,10) quadKey_eq_bits(2) [OF assms(2) assms(11)]
    by (rule int_eq_of_low_bits)
qed

text \<open>
  The theorem for claim C10 at zoom 2 and the tile \<open>(3, 1)\<close>; the tile \<open>(1, 3)\<close> has
  another quadkey.
\<close>

theorem quadKey_injective_witness:
  "(0::int) \<le> 2 \<and> (2::int) \<le> 32
    \<and> (0::int) \<le> 3 \<and> (3::int) < 2 ^ nat 2 \<and> (0::int) \<le> 1 \<and> (1::int) < 2 ^ nat 2
    \<and> quadKey 2 3 1 = quadKey 2 3 1 \<and> (3::int) = 3 \<and> (1::int) = 1
    \<and> quadKey 2 3 1 \<noteq> quadKey 2 1 3"
  using quadKey_injective [of 2 3 1 3 1] by (simp add: quadKey_2_3_1 quadKey_2_1_3)

text \<open>
  Claim C10 as it is stated, for every \<open>z \<ge> 0\<close>, fails at zoom 33: the tiles
  \<open>(0, 0)\<close> and \<open>(2 ^ 32, 0)\<close> are both in the grid and have the same quadkey, since the
  conversion to a 32-bit integer drops bit 32 of \<open>x\<close>.
\<close>

theorem quadKey_injective_counterexample:
  "(0::int) \<le> 33
    \<and> (0::int) \<le> 0 \<and> (0::int) < 2 ^ nat 33
    \<and> (0::int) \<le> 4294967296 \<and> (4294967296::int) < 2 ^ nat 33
    \<and> quadKey 33 0 0 = quadKey 33 4294967296 0 \<and> (0::int) \<noteq> 4294967296"
  by (simp add: quadKey_33_zero)

section \<open>A call of \<open>quadKey\<close> and the state around it\<close>

lemma quadKey_exec_loop: "quadKey_exec x y (g, i, quad) (g, quadKey_loop i x y quad)"
proof (induction i x y quad rule: quadKey_loop.induct)
  case (1 i x y quad)
  show ?case
  proof (cases "i > 0")
    case True
    with 1 have "quadKey_exec x y (g, i - 1, quadKey_body i x y quad)
        (g, quadKey_loop (i - 1) x y (quadKey_body i x y quad))"
      by simp
    with True have "quadKey_exec x y (g, i, quad)
        (g, quadKey_loop (i - 1) x y (quadKey_body i x y quad))"
      by (rule quadKey_exec.iterate)
    with True show ?thesis
      by (subst quadKey_loop.simps) simp
  next
    case False
    then have "quadKey_exec x y (g, i, quad) (g, quad)"
      by (rule quadKey_exec.exit_loop)
    with False show ?thesis
      by (subst quadKey_loop.simps) simp
  qed
qed

lemma quadKey_exec_result:
  "quadKey_exec x y c r \<Longrightarrow> r = (fst c, quadKey_loop (fst (snd c)) x y (snd (snd c)))"
proof (induction rule: quadKey_exec.induct)
  case (exit_loop i g quad)
  then show ?case
    by (subst quadKey_loop.simps) simp
next
  case (iterate i g quad r)
  then show ?case
    by (subst quadKey_loop.simps) simp
qed

lemma quadKey_call_total: "quadKey_call zoom x y g (g, quadKey zoom x y)"
  unfolding quadKey_call_def quadKey_def by (rule quadKey_exec_loop)

lemma quadKey_call_result:
  assumes "quadKey_call zoom x y g s"
  shows "s = (g, quadKey zoom x y)"
  using quadKey_exec_result [OF assms [unfolded quadKey_call_def]]
  by (simp add: quadKey_def)

text \<open>
  Claim C6.  \<open>quadKey\<close> is total, deterministic and pure.  Started on integers
  \<open>zoom\<close>, \<open>x\<close>, \<open>y\<close> in any state \<open>g\<close> of the rest of the program, a call returns (the
  loop ends, and no step of it fails); every run of the call leaves \<open>g\<close> as it was and
  returns the string \<open>quadKey zoom x y\<close>; so two calls with equal arguments return
  equal strings, whatever the states they start in.
\<close>

theorem quadKey_pure_total:
  "(\<exists>r. quadKey_call zoom x y (g::'g) (g, r))
    \<and> (\<forall>g' r. quadKey_call zoom x y g (g', r) \<longrightarrow> g' = g \<and> r = quadKey zoom x y)
    \<and> (\<forall>(g1::'g) (g2::'g) s1 s2. quadKey_call zoom x y g1 s1 \<and> quadKey_call zoom x y g2 s2
          \<longrightarrow> snd s1 = snd s2)"
proof (intro conjI allI impI)
  show "\<exists>r. quadKey_call zoom x y g (g, r)"
    by (rule exI) (rule quadKey_call_total)
next
  fix g' r
  assume "quadKey_call zoom x y g (g', r)"
  then have "(g', r) = (g, quadKey zoom x y)"
    by (rule quadKey_call_result)
  then show "g' = g" and "r = quadKey zoom x y"
    by simp_all
next
  fix g1 g2 s1 s2
  assume both: "quadKey_call zoom x y g1 s1 \<and> quadKey_call zoom x y g2 s2"
  have "s1 = (g1, quadKey zoom x y)"
    using both by (intro quadKey_call_result) simp
  moreover have "s2 = (g2, quadKey zoom x y)"
    using both by (intro quadKey_call_result) simp
  ultimately show "snd s1 = snd s2"
    by simp
qed

text \<open>
  The theorem for claim C6 at \<open>quadKey(3, 5, 2)\<close>, called in the state \<open>7\<close>: the call
  returns \<open>121\<close> and the state is still \<open>7\<close>.
\<close>

theorem quadKey_pure_total_witness:
  "quadKey_call 3 5 2 (7::nat) (7, ''121'')"
proof -
  note inst = quadKey_pure_total [of 3 5 2 "7::nat"]
  from inst obtain r where r: "quadKey_call 3 5 2 (7::nat) (7, r)"
    by (elim conjE exE)
  from inst have "\<forall>g' r. quadKey_call 3 5 2 (7::nat) (g', r) \<longrightarrow> g' = 7 \<and> r = quadKey 3 5 2"
    by (elim conjE)
  with r have "r = quadKey 3 5 2"
    by (elim allE [of _ 7] allE [of _ r]) simp
  with r show ?thesis
    by (simp add: quadKey_3_5_2)
qed

section \<open>The constructor\<close>

text \<open>
  Claim C7.  The constructor stores its two arguments in the fields \<open>apiKey\<close> and
  \<open>type\<close>; when the first is \<open>undefined\<close> the API key is the empty string, and when the
  second is \<open>undefined\<close> the type is the constant \<open>AERIAL\<close>, the string \<open>a\<close>.
\<close>

theorem constructor_defaults:
  "apiKey (constructor (Some k) t) = k
    \<and> apiKey (constructor None t) = []
    \<and> type (constructor a (Some ty)) = ty
    \<and> type (constructor a None) = AERIAL
    \<and> AERIAL = ''a''"
  by (simp add: constructor_def AERIAL_def)

section \<open>The height node\<close>

text \<open>
  Claim C8.  \<open>loadHeightGeometry\<close> does nothing: run in any state of the program, it
  returns no value (\<open>undefined\<close>) and the state after the call, the fields of the node
  among it, is the state before it.
\<close>

theorem loadHeightGeometry_noop: "run_state loadHeightGeometry s = ((), s)"
  by (simp add: loadHeightGeometry_def)

section \<open>The tile URL\<close>

text \<open>
  Every URL of the shape the specification words has the format between a dot and the
  question mark, and the subdomain right after \<open>://\<close>.
\<close>

lemma spec_tile_url_has_format:
  "sublist (''.'' @ fmt @ ''?'') (spec_tile_url scheme sub host ty key fmt query)"
proof -
  have "spec_tile_url scheme sub host ty key fmt query =
      (scheme @ ''://'' @ sub @ ''.'' @ host @ ''/tiles/'' @ ty @ key) @ (''.'' @ fmt @ ''?'') @ query"
    by (simp add: spec_tile_url_def)
  then show ?thesis
    by (simp only: sublist_appendI)
qed

lemma spec_tile_url_has_subdomain:
  "sublist (''://'' @ sub @ ''.'') (spec_tile_url scheme sub host ty key fmt query)"
proof -
  have "spec_tile_url scheme sub host ty key fmt query =
      scheme @ (''://'' @ sub @ ''.'') @ (host @ ''/tiles/'' @ ty @ key @ ''.'' @ fmt @ ''?'' @ query)"
    by (simp add: spec_tile_url_def)
  then show ?thesis
    by (simp only: sublist_appendI)
qed

lemma quadKey_1_1_0: "quadKey 1 1 0 = ''1''"
  by code_simp

lemma png_url:
  "fetchTile_src ((constructor None None)\<lparr>format := ''png''\<rparr>) 1 1 0 =
     ''http://ecn.t1.tiles.virtualearth.net/tiles/a1.jpeg?g=1173''"
  by (simp add: fetchTile_src_def constructor_def AERIAL_def quadKey_1_1_0)

lemma no_png: "\<not> sublist ''.png?'' ''http://ecn.t1.tiles.virtualearth.net/tiles/a1.jpeg?g=1173''"
  by code_simp

lemma no_t1: "\<not> sublist ''://t1.'' ''http://ecn.t1.tiles.virtualearth.net/tiles/a1.jpeg?g=1173''"
  by code_simp

text \<open>
  Claim C2, as the code has it.  For every \<open>(zoom, x, y)\<close> and every provider whose
  \<open>format\<close> field holds \<open>jpeg\<close>, the value its initialiser gives it, the URL that
  \<open>fetchTile\<close> requests is
  \<open>http://ecn.{subdomain}.tiles.virtualearth.net/tiles/{type}{quadkey}.{format}?g=1173\<close>:
  the shape of the specification with the scheme \<open>http\<close>, the fixed host label \<open>ecn\<close>
  before the provider's \<open>subdomain\<close> field, the host suffix
  \<open>tiles.virtualearth.net\<close>, the provider's \<open>type\<close> field, the quadkey
  \<open>quadKey(zoom, x, y)\<close> and the query \<open>g=1173\<close>.
\<close>

theorem fetchTile_src_default_format:
  assumes "format self = ''jpeg''"
  shows "fetchTile_src self zoom x y =
    spec_tile_url ''http'' (''ecn.'' @ subdomain self) ''tiles.virtualearth.net''
      (type self) (quadKey zoom x y) (format self) ''g=1173''"
  using assms by (simp add: fetchTile_src_def spec_tile_url_def)

text \<open>
  The theorem for claim C2 at the provider \<open>new BingMapsProvider()\<close> and the tile
  \<open>(1, 1, 0)\<close>.
\<close>

theorem fetchTile_src_default_format_witness:
  "format (constructor None None) = ''jpeg''
    \<and> fetchTile_src (constructor None None) 1 1 0 =
        ''http://ecn.t1.tiles.virtualearth.net/tiles/a1.jpeg?g=1173''"
  using fetchTile_src_default_format [of "constructor None None" 1 1 0]
  by (simp add: constructor_def spec_tile_url_def AERIAL_def quadKey_1_1_0)

text \<open>
  Claim C2 as it is stated fails for the provider \<open>new BingMapsProvider()\<close> whose
  \<open>format\<close> field has been set to \<open>png\<close>, at the tile \<open>(1, 1, 0)\<close>: the URL requested
  is \<open>http://ecn.t1.tiles.virtualearth.net/tiles/a1.jpeg?g=1173\<close>.  It contains neither
  \<open>.png?\<close>, the format field as the extension, nor \<open>://t1.\<close>, the subdomain field
  right after the scheme, so it is no instance of the shape
  \<open>{scheme}://{subdomain}.{hostSuffix}/tiles/{type}{quadkey}.{format}?{query}\<close> filled
  from the provider's fields.
\<close>

theorem fetchTile_src_counterexample:
  "format ((constructor None None)\<lparr>format := ''png''\<rparr>) = ''png''
    \<and> subdomain ((constructor None None)\<lparr>format := ''png''\<rparr>) = ''t1''
    \<and> fetchTile_src ((constructor None None)\<lparr>format := ''png''\<rparr>) 1 1 0 =
        ''http://ecn.t1.tiles.virtualearth.net/tiles/a1.jpeg?g=1173''
    \<and> \<not> sublist (''.'' @ format ((constructor None None)\<lparr>format := ''png''\<rparr>) @ ''?'')
          (fetchTile_src ((constructor None None)\<lparr>format := ''png''\<rparr>) 1 1 0)
    \<and> \<not> sublist (''://'' @ subdomain ((constructor None None)\<lparr>format := ''png''\<rparr>) @ ''.'')
          (fetchTile_src ((constructor None None)\<lparr>format := ''png''\<rparr>) 1 1 0)"
  using no_png no_t1 by (simp add: png_url) (simp add: constructor_def)

section \<open>Settlement and cancellation of a fetch\<close>

lemma settled_fixed: "state h \<noteq> Pending \<Longrightarrow> fetch_step img h ev = h"
  by (cases ev)
    (simp_all add: fetch_step_def image_onload_def image_onerror_def resolve_def reject_def
      cancel_def)

lemma settled_run: "state h \<noteq> Pending \<Longrightarrow> foldl (fetch_step img) h evs = h"
  by (induction evs) (simp_all add: settled_fixed)

lemma step_settles: "state (fetch_step img h ev) \<noteq> Pending"
  by (cases ev)
    (simp_all add: fetch_step_def image_onload_def image_onerror_def resolve_def reject_def
      cancel_def)

lemma pending_no_events:
  assumes "state (fetch_run f evs) = Pending"
  shows "evs = []"
proof (cases evs rule: rev_cases)
  case Nil
  then show ?thesis .
next
  case (snoc es e)
  then have "state (fetch_run f evs) \<noteq> Pending"
    by (simp add: fetch_run_def step_settles)
  with assms show ?thesis
    by simp
qed

lemma fetch_run_cancel:
  "fetch_run (fetchTile self zoom x y) (CallerCancel # evs) =
     \<lparr>state = Canceled, success_calls = [], failure_calls = []\<rparr>"
proof -
  have "fetch_step img new_CancelablePromise CallerCancel =
      \<lparr>state = Canceled, success_calls = [], failure_calls = []\<rparr>" for img
    by (simp add: fetch_step_def cancel_def new_CancelablePromise_def)
  then show ?thesis
    by (simp add: fetch_run_def fetchTile_def settled_run)
qed


lemma transport_run_cancel:
  "transport_run (fetchTile self zoom x y) [CallerCancel] = InFlight"
  by (simp add: transport_run_def fetchTile_def transport_step_def)

lemma transport_run_cancel_completed:
  "transport_run (fetchTile self zoom x y) [CallerCancel, TransportCompleted] = Completed"
  by (simp add: transport_run_def fetchTile_def transport_step_def)

text \<open>
  Claim C3, as the code has it.  If the caller cancels the handle that \<open>fetchTile\<close>
  returned while the fetch is still pending (after the events \<open>before\<close>), then whatever
  happens afterwards (the events \<open>after\<close>) the handle stays canceled and neither the
  success nor the failure continuation is ever invoked.  The cancellation does not abort
  the image load: right after it the transport is still in flight.
\<close>

theorem cancel_before_settlement:
  assumes "state (fetch_run (fetchTile self zoom x y) before) = Pending"
  shows "(let h = fetch_run (fetchTile self zoom x y) (before @ CallerCancel # after)
          in state h = Canceled \<and> success_calls h = [] \<and> failure_calls h = [])
    \<and> transport_run (fetchTile self zoom x y) (before @ [CallerCancel]) = InFlight"
proof -
  from assms have "before = []"
    by (rule pending_no_events)
  then show ?thesis
    by (simp add: fetch_run_cancel transport_run_cancel)
qed

text \<open>
  The theorem for claim C3 at a fetch of the tile \<open>(1, 1, 0)\<close> that is canceled at once;
  the image then loads, and an error is reported after that.
\<close>

theorem cancel_before_settlement_witness:
  "state (fetch_run (fetchTile (constructor None None) 1 1 0) []) = Pending
    \<and> (let h = fetch_run (fetchTile (constructor None None) 1 1 0)
                 ([] @ CallerCancel # [TransportCompleted, TransportFailed])
       in state h = Canceled \<and> success_calls h = [] \<and> failure_calls h = [])
    \<and> transport_run (fetchTile (constructor None None) 1 1 0) ([] @ [CallerCancel]) = InFlight"
proof -
  have p: "state (fetch_run (fetchTile (constructor None None) 1 1 0) []) = Pending"
    by (simp add: fetch_run_def fetchTile_def new_CancelablePromise_def)
  from p cancel_before_settlement [OF p, of "[TransportCompleted, TransportFailed]"]
  show ?thesis
    by simp
qed

text \<open>
  Claim C3 as it is stated fails at a fetch of the tile \<open>(1, 1, 0)\<close> that the caller
  cancels at once, while it is pending: after the cancellation the image load is in
  flight, not aborted, and it completes when the image arrives.
\<close>

theorem cancel_before_settlement_counterexample:
  "state (fetch_run (fetchTile (constructor None None) 1 1 0) []) = Pending
    \<and> transport_run (fetchTile (constructor None None) 1 1 0) [CallerCancel] = InFlight
    \<and> transport_run (fetchTile (constructor None None) 1 1 0) [CallerCancel] \<noteq> Aborted
    \<and> transport_run (fetchTile (constructor None None) 1 1 0)
          [CallerCancel, TransportCompleted] = Completed"
  by (simp add: transport_run_cancel transport_run_cancel_completed)
    (simp add: fetch_run_def fetchTile_def new_CancelablePromise_def)



end
